theory Spec2Isabelle
  imports Main
begin

section \<open>JavaScript values as the components observe them\<close>

text \<open>
  The error boundary receives a value of TypeScript type \<open>unknown\<close>: anything that can be
  thrown. The components only read properties of it, test \<open>typeof\<close> of a property, test
  a key with \<open>in\<close>, test truthiness and convert it with \<open>String(...)\<close>. A value is
  modelled by what these observations return.

  Numbers are the integral numbers and \<open>NaN\<close>; the program does no arithmetic on a number
  of an error value. An object is the association list of its readable properties (own and
  inherited) together with the outcome of converting it to a string: \<open>Some s\<close> when
  \<open>String(obj)\<close> returns \<open>s\<close>, \<open>None\<close> when the conversion throws a \<open>TypeError\<close>
  (an object without \<open>toString\<close> and \<open>valueOf\<close>, such as \<open>Object.create(null)\<close>).
\<close>

datatype jsnum = Num int | NaN

datatype jsval =
    JUndefined
  | JNull
  | JBool bool
  | JNumber jsnum
  | JString string
  | JBigInt int
  | JSymbol string
  | JObject "(string \<times> jsval) list" "string option"

datatype exn = TypeError

text \<open>Decimal digits of a natural number, most significant first.\<close>

fun show_nat :: "nat \<Rightarrow> string" where
  "show_nat n =
     (if n < 10 then [''0123456789'' ! n]
      else show_nat (n div 10) @ [''0123456789'' ! (n mod 10)])"

declare show_nat.simps [simp del]

definition show_int :: "int \<Rightarrow> string" where
  "show_int i = (if i < 0 then CHR ''-'' # show_nat (nat (- i)) else show_nat (nat i))"

text \<open>\<open>typeof v\<close>.\<close>

fun typeof :: "jsval \<Rightarrow> string" where
  "typeof JUndefined = ''undefined''"
| "typeof JNull = ''object''"
| "typeof (JBool b) = ''boolean''"
| "typeof (JNumber n) = ''number''"
| "typeof (JString s) = ''string''"
| "typeof (JBigInt i) = ''bigint''"
| "typeof (JSymbol d) = ''symbol''"
| "typeof (JObject ps c) = ''object''"

text \<open>
  Truthiness, as \<open>||\<close> and \<open>if\<close> test it: \<open>undefined\<close>, \<open>null\<close>, \<open>false\<close>, \<open>0\<close>,
  \<open>NaN\<close>, the empty string and \<open>0n\<close> are falsy, everything else is truthy.
\<close>

fun ToBoolean :: "jsval \<Rightarrow> bool" where
  "ToBoolean JUndefined = False"
| "ToBoolean JNull = False"
| "ToBoolean (JBool b) = b"
| "ToBoolean (JNumber (Num i)) = (i \<noteq> 0)"
| "ToBoolean (JNumber NaN) = False"
| "ToBoolean (JString s) = (s \<noteq> [])"
| "ToBoolean (JBigInt i) = (i \<noteq> 0)"
| "ToBoolean (JSymbol d) = True"
| "ToBoolean (JObject ps c) = True"

text \<open>
  \<open>v.k\<close> for a value that is neither \<open>null\<close> nor \<open>undefined\<close>. The keys the program
  reads (\<open>message\<close>, \<open>stack\<close>, \<open>status\<close>, \<open>statusText\<close>, \<open>internal\<close>, \<open>data\<close>) exist
  on no primitive, so reading them from a primitive gives \<open>undefined\<close>.
\<close>

fun lookup :: "jsval \<Rightarrow> string \<Rightarrow> jsval" where
  "lookup (JObject ps c) k = (case map_of ps k of Some v \<Rightarrow> v | None \<Rightarrow> JUndefined)"
| "lookup v k = JUndefined"

text \<open>
  \<open>v.k\<close> in general: reading a property of \<open>null\<close> or \<open>undefined\<close> throws. The
  properties of the objects modelled here are data properties; a read that throws from an
  accessor or a proxy has no value in this model, so what is stated of the fallback branch
  is stated for values whose reads of \<open>message\<close> and \<open>stack\<close> return.
\<close>

fun get_prop :: "jsval \<Rightarrow> string \<Rightarrow> exn + jsval" where
  "get_prop JUndefined k = Inl TypeError"
| "get_prop JNull k = Inl TypeError"
| "get_prop v k = Inr (lookup v k)"

text \<open>\<open>k in v\<close> for an object \<open>v\<close>.\<close>

fun has_key :: "string \<Rightarrow> jsval \<Rightarrow> bool" where
  "has_key k (JObject ps c) = (k \<in> set (map fst ps))"
| "has_key k v = False"

text \<open>
  \<open>String(v)\<close>. A number is printed in plain decimal, which is what JavaScript prints for
  an integral number of magnitude below \<open>10^21\<close>; nothing stated below depends on the
  digits of a number.
\<close>

fun String_js :: "jsval \<Rightarrow> exn + string" where
  "String_js JUndefined = Inr ''undefined''"
| "String_js JNull = Inr ''null''"
| "String_js (JBool b) = Inr (if b then ''true'' else ''false'')"
| "String_js (JNumber (Num i)) = Inr (show_int i)"
| "String_js (JNumber NaN) = Inr ''NaN''"
| "String_js (JString s) = Inr s"
| "String_js (JBigInt i) = Inr (show_int i)"
| "String_js (JSymbol d) = Inr (''Symbol('' @ d @ '')'')"
| "String_js (JObject ps c) = (case c of Some s \<Rightarrow> Inr s | None \<Rightarrow> Inl TypeError)"

section \<open>Rendered elements\<close>

text \<open>
  The operations of the counter that a click handler can invoke, and the element tree a
  component returns: literal text, an interpolated expression \<open>{e}\<close> holding the value of
  \<open>e\<close>, and an element with its tag, its \<open>className\<close>, its \<open>onClick\<close> handler (the
  sequence of counter operations that the handler calls) and its children.
\<close>

datatype action = Increment | Reset

datatype node =
    Text string
  | Expr jsval
  | Element string "string option" "action list option" "node list"

text \<open>The values of the interpolated expressions of a tree, in document order.\<close>

fun holes :: "node \<Rightarrow> jsval list" where
  "holes (Text s) = []"
| "holes (Expr v) = [v]"
| "holes (Element t c h ns) = concat (map holes ns)"

text \<open>The tree with every interpolated expression emptied: what is left is the fixed markup.\<close>

fun skeleton :: "node \<Rightarrow> node" where
  "skeleton (Text s) = Text s"
| "skeleton (Expr v) = Expr JUndefined"
| "skeleton (Element t c h ns) = Element t c h (map skeleton ns)"

section \<open>The error screens\<close>

text \<open>react-router's \<open>ErrorResponse\<close>: \<open>status: number\<close>, \<open>statusText: string\<close>, \<open>data: any\<close>.\<close>

record ErrorResponse =
  status :: jsnum
  statusText :: string
  data :: jsval

text \<open>\<open>src/components/errors/route-error-response.tsx\<close>\<close>

definition RouteErrorResponse :: "ErrorResponse \<Rightarrow> node" where
  "RouteErrorResponse error =
     Element ''div'' (Some ''h-screen flex flex-col justify-center items-center gap-3'') None
       [Element ''div'' (Some ''route-error-header'') None
          [Element ''h1'' (Some ''text-9xl font-bold'') None [Text ''Ooops!'']],
        Element ''h3'' (Some ''text-2xl font-bold'') None
          [Expr (JNumber (status error)), Text '' - '', Expr (JString (statusText error))],
        Element ''p'' None None [Expr (data error)]]"

text \<open>
  react-router's type guard, which is not code of this repository:
  \<^verbatim>\<open>error != null && typeof error.status === "number" && typeof error.statusText === "string"
  && typeof error.internal === "boolean" && "data" in error\<close>.
  The conjunction is short-circuit, so it returns \<open>false\<close> on \<open>null\<close> and \<open>undefined\<close>
  without reading a property, and reaches \<open>in\<close> only for an object.
\<close>

definition isRouteErrorResponse :: "jsval \<Rightarrow> bool" where
  "isRouteErrorResponse error =
     (error \<noteq> JNull \<and> error \<noteq> JUndefined
      \<and> typeof (lookup error ''status'') = ''number''
      \<and> typeof (lookup error ''statusText'') = ''string''
      \<and> typeof (lookup error ''internal'') = ''boolean''
      \<and> has_key ''data'' error)"

text \<open>
  The narrowing \<open>error is ErrorResponse\<close> that the guard licenses: the same object, read at
  its static type. The defaults are never taken for a value the guard accepts
  (lemma \<open>narrow_fields\<close>).
\<close>

definition narrow :: "jsval \<Rightarrow> ErrorResponse" where
  "narrow error =
     \<lparr> status = (case lookup error ''status'' of JNumber n \<Rightarrow> n | _ \<Rightarrow> NaN),
       statusText = (case lookup error ''statusText'' of JString s \<Rightarrow> s | _ \<Rightarrow> []),
       data = lookup error ''data'' \<rparr>"

text \<open>
  \<open>src/pages/errors/app-error-boundary.tsx\<close>. The argument is the value that
  \<open>useRouteError()\<close> returns. The result is the rendered tree, or the exception thrown
  while the component runs.
\<close>

definition AppErrorBoundary :: "jsval \<Rightarrow> exn + node" where
  "AppErrorBoundary error =
     (if isRouteErrorResponse error then Inr (RouteErrorResponse (narrow error))
      else
        (case get_prop error ''message'' of
           Inl x \<Rightarrow> Inl x
         | Inr message \<Rightarrow>
             (case (if ToBoolean message then Inr message
                    else map_sum id JString (String_js error)) of
                Inl x \<Rightarrow> Inl x
              | Inr shown \<Rightarrow>
                  (case get_prop error ''stack'' of
                     Inl x \<Rightarrow> Inl x
                   | Inr stack \<Rightarrow>
                       Inr (Element ''div'' None None
                              [Element ''h1'' None None [Text ''Unexpected Error''],
                               Element ''p'' None None [Expr shown],
                               Element ''p'' None None [Text ''The stack is Here''],
                               Element ''pre'' None None [Expr stack]])))))"

section \<open>The counter\<close>

text \<open>
  Modelled from the spec: the counter store (\<open>useCounterStore\<close> of module \<open>@/store\<close>) and
  the counter hook (\<open>useCounter\<close> of module \<open>@/hooks/use-counter\<close>) are not among the
  source files; only the pages that call them are. The spec describes "a single integer
  counter with two operations (increment, reset)", a "non-negative integer" that "starts at
  0", and says that "clicking increment increases the counter by one". Reset puts the
  counter back to the value it starts at.
\<close>

record counter =
  count :: int

text \<open>
  Modelled from the spec: the value the store (not among the source files) starts with;
  the counter "starts at 0".
\<close>

definition initial_counter :: counter where
  "initial_counter = \<lparr> count = 0 \<rparr>"

text \<open>
  Modelled from the spec: the store's \<open>increment\<close> (not among the source files);
  "clicking increment increases the counter by one".
\<close>

definition increment :: "counter \<Rightarrow> counter" where
  "increment s = s\<lparr> count := count s + 1 \<rparr>"

text \<open>
  Modelled from the spec: the store's \<open>reset\<close> (not among the source files), the second
  of the "two operations (increment, reset)"; it puts the counter back to the value it
  starts at.
\<close>

definition reset :: "counter \<Rightarrow> counter" where
  "reset s = s\<lparr> count := 0 \<rparr>"

text \<open>One call of an operation, and a sequence of calls in order.\<close>

fun perform :: "action \<Rightarrow> counter \<Rightarrow> counter" where
  "perform Increment s = increment s"
| "perform Reset s = reset s"

fun run :: "action list \<Rightarrow> counter \<Rightarrow> counter" where
  "run [] s = s"
| "run (a # as) s = run as (perform a s)"

section \<open>The pages\<close>

text \<open>
  \<open>src/pages/index.tsx\<close>: \<open>Home\<close> destructures \<open>count\<close>, \<open>increment\<close> and \<open>reset\<close> from
  the store and passes \<open>increment\<close> and \<open>reset\<close> themselves as the click handlers. The
  argument is the state of the counter at the time of rendering. \<open>Button\<close> is the
  button of the UI kit; it is kept as an element of that name that carries the handler.
\<close>

definition Home :: "counter \<Rightarrow> node" where
  "Home s =
     Element ''div'' (Some ''min-h-screen flex flex-col items-center justify-center'') None
       [Element ''div'' (Some ''flex flex-col items-center gap-5'') None
          [Element ''div'' None None
             [Element ''h1'' (Some ''text-4xl font-bold capitalize text-center mb-2'') None
                [Text ''Counter example''],
              Element ''h2'' (Some ''font-bold text-center'') None
                [Text ''Vite + React + TailwindCSS'']],
           Element ''div'' (Some ''flex gap-4'') None
             [Element ''Button'' None (Some [Increment])
                [Text ''Count is '', Expr (JNumber (Num (count s)))],
              Element ''Button'' None (Some [Reset]) [Text ''Reset'']],
           Element ''span'' None None
             [Text ''Edit src/pages/index.tsx to see HMR in action!'']]]"

text \<open>
  The page \<open>App\<close>: it takes \<open>count\<close> and \<open>increment\<close> from the hook, and its handler
  \<open>handleClick\<close> is \<open>() => { increment(); }\<close>.
\<close>

definition handleClick :: "action list" where
  "handleClick = [Increment]"

definition App :: "counter \<Rightarrow> node" where
  "App s =
     Element ''div'' (Some ''min-h-screen flex flex-col items-center justify-center'') None
       [Element ''div'' (Some ''flex flex-col items-center gap-5'') None
          [Element ''div'' None None
             [Element ''h1'' (Some ''text-4xl font-bold capitalize text-center mb-2'') None
                [Text ''Counter example''],
              Element ''h2'' (Some ''font-bold text-center'') None
                [Text ''Vite + React + TailwindCSS'']],
           Element ''button''
             (Some ''cursor-pointer rounded p-2 bg-black text-white hover:bg-gray-800 transition'')
             (Some handleClick)
             [Text ''Count is '', Expr (JNumber (Num (count s)))],
           Element ''span'' None None
             [Text ''Edit src/pages/index.tsx to see HMR in action!'']]]"

text \<open>The elements of a tree that carry a click handler, in document order.\<close>

fun buttons :: "node \<Rightarrow> node list" where
  "buttons (Text s) = []"
| "buttons (Expr v) = []"
| "buttons (Element t c h ns) =
     (case h of None \<Rightarrow> [] | Some as \<Rightarrow> [Element t c h ns]) @ concat (map buttons ns)"

text \<open>The operations that a click on an element calls, and the state after the click.\<close>

fun onClick :: "node \<Rightarrow> action list" where
  "onClick (Element t c (Some as) ns) = as"
| "onClick n = []"

definition click :: "node \<Rightarrow> counter \<Rightarrow> counter" where
  "click n s = run (onClick n) s"

section \<open>The route table\<close>

text \<open>
  A component as a route names it: the error boundary, or a component loaded lazily from
  a module. A route object has the optional fields of react-router's \<open>RouteObject\<close> that
  the table sets; \<open>None\<close> is a field left out.
\<close>

datatype component = AppErrorBoundary_ref | lazy string

datatype RouteObject =
  RouteObject (path: "string option") (index: "bool option")
    (ErrorBoundary: "component option") (Component: "component option")
    (children: "RouteObject list option")

definition Home_lazy :: component where
  "Home_lazy = lazy ''@/pages/index.tsx''"

definition rootRoutes :: RouteObject where
  "rootRoutes =
     RouteObject (Some ''/'') None (Some AppErrorBoundary_ref) None
       (Some [RouteObject None (Some True) None (Some Home_lazy) None])"

section \<open>Sample error values\<close>

text \<open>
  Two responses as react-router builds them (a 404 of the router itself and a 500 thrown by
  a loader), an \<open>Error\<close> instance, and a thrown plain object whose \<open>message\<close> is a number.
\<close>

definition not_found_error :: jsval where
  "not_found_error =
     JObject [(''status'', JNumber (Num 404)), (''statusText'', JString ''Not Found''),
              (''internal'', JBool True),
              (''data'', JString ''Error: No route matches URL /nowhere'')]
       (Some ''[object Object]'')"

definition server_error :: jsval where
  "server_error =
     JObject [(''status'', JNumber (Num 500)),
              (''statusText'', JString ''Internal Server Error''),
              (''internal'', JBool False), (''data'', JNull)]
       (Some ''[object Object]'')"

definition boom_error :: jsval where
  "boom_error =
     JObject [(''name'', JString ''Error''), (''message'', JString ''boom''),
              (''stack'', JString ''Error: boom at loader'')]
       (Some ''Error: boom'')"

definition odd_error :: jsval where
  "odd_error = JObject [(''message'', JNumber (Num 42))] (Some ''[object Object]'')"

section \<open>The type guard and the narrowing\<close>

lemma isRouteErrorResponse_nullish [simp]:
  "\<not> isRouteErrorResponse JNull" "\<not> isRouteErrorResponse JUndefined"
  by (simp_all add: isRouteErrorResponse_def)

lemma isRouteErrorResponse_object:
  "isRouteErrorResponse e \<Longrightarrow> \<exists>ps c. e = JObject ps c"
  by (cases e) (simp_all add: isRouteErrorResponse_def)

lemma narrow_fields:
  assumes "isRouteErrorResponse e"
  shows "JNumber (status (narrow e)) = lookup e ''status''"
    and "JString (statusText (narrow e)) = lookup e ''statusText''"
    and "data (narrow e) = lookup e ''data''"
  using assms
  by (auto simp: isRouteErrorResponse_def narrow_def split: jsval.splits elim: typeof.elims)

lemma get_prop_defined:
  "e \<noteq> JNull \<Longrightarrow> e \<noteq> JUndefined \<Longrightarrow> get_prop e k = Inr (lookup e k)"
  by (cases e) simp_all

section \<open>The error boundary\<close>

lemma AppErrorBoundary_route:
  assumes "isRouteErrorResponse e"
  shows "AppErrorBoundary e = Inr (RouteErrorResponse (narrow e))"
    and "map_sum id holes (AppErrorBoundary e)
           = Inr [lookup e ''status'', lookup e ''statusText'', lookup e ''data'']"
  using assms narrow_fields [OF assms]
  by (simp_all add: AppErrorBoundary_def RouteErrorResponse_def)

lemma AppErrorBoundary_fallback:
  assumes "\<not> isRouteErrorResponse e" and "e \<noteq> JNull" and "e \<noteq> JUndefined"
  shows "AppErrorBoundary e =
           (case (if ToBoolean (lookup e ''message'') then Inr (lookup e ''message'')
                  else map_sum id JString (String_js e)) of
              Inl x \<Rightarrow> Inl x
            | Inr shown \<Rightarrow>
                Inr (Element ''div'' None None
                       [Element ''h1'' None None [Text ''Unexpected Error''],
                        Element ''p'' None None [Expr shown],
                        Element ''p'' None None [Text ''The stack is Here''],
                        Element ''pre'' None None [Expr (lookup e ''stack'')]]))"
  using assms by (simp add: AppErrorBoundary_def get_prop_defined split: sum.splits)

lemma AppErrorBoundary_reads:
  assumes "\<not> isRouteErrorResponse e"
    and "get_prop e ''message'' = Inr m" and "get_prop e ''stack'' = Inr st"
  shows "AppErrorBoundary e =
           (case (if ToBoolean m then Inr m else map_sum id JString (String_js e)) of
              Inl x \<Rightarrow> Inl x
            | Inr shown \<Rightarrow>
                Inr (Element ''div'' None None
                       [Element ''h1'' None None [Text ''Unexpected Error''],
                        Element ''p'' None None [Expr shown],
                        Element ''p'' None None [Text ''The stack is Here''],
                        Element ''pre'' None None [Expr st]]))"
  unfolding AppErrorBoundary_def using assms by (simp split: sum.splits)

text \<open>
  C1: the boundary renders the route template exactly for the values that the guard accepts
  and the generic template for every other value, with no third outcome. For \<open>null\<close> the
  guard answers \<open>false\<close> and the fallback branch throws: neither template is rendered.
\<close>

theorem AppErrorBoundary_null_third_outcome:
  "isRouteErrorResponse JNull = False \<and> AppErrorBoundary JNull = Inl TypeError"
  by (simp add: AppErrorBoundary_def)

text \<open>
  C10: the boundary returns an element for every error value, \<open>null\<close> and \<open>undefined\<close>
  included, and the reads of \<open>message\<close> and \<open>stack\<close> succeed on every value. On
  \<open>null\<close> and on \<open>undefined\<close> the read of \<open>message\<close> throws, and so does the boundary.
\<close>

theorem AppErrorBoundary_nullish_throws:
  "get_prop JNull ''message'' = Inl TypeError
   \<and> get_prop JUndefined ''message'' = Inl TypeError
   \<and> (case AppErrorBoundary JNull of Inl x \<Rightarrow> True | Inr t \<Rightarrow> False)
   \<and> (case AppErrorBoundary JUndefined of Inl x \<Rightarrow> True | Inr t \<Rightarrow> False)"
  by (simp add: AppErrorBoundary_def)

section \<open>The two templates\<close>

text \<open>
  C7: for every \<open>ErrorResponse\<close>, the output of \<open>RouteErrorResponse\<close> contains its status
  code, its status text and its data: they are the three interpolated expressions of the
  tree, in this order.
\<close>

theorem RouteErrorResponse_shows_fields:
  "holes (RouteErrorResponse error)
     = [JNumber (status error), JString (statusText error), data error]"
  by (simp add: RouteErrorResponse_def)

text \<open>
  C6, as stated: the content of the rendered template does not vary with the error value
  beyond the choice of branch. Two route errors take the same branch and render
  differently.
\<close>

theorem template_content_varies:
  "isRouteErrorResponse not_found_error \<and> isRouteErrorResponse server_error
   \<and> AppErrorBoundary not_found_error \<noteq> AppErrorBoundary server_error"
  by (simp add: isRouteErrorResponse_def AppErrorBoundary_def not_found_error_def
        server_error_def RouteErrorResponse_def narrow_def)

text \<open>
  C6, amended: the markup of each template is fixed. Two error values that are rendered by
  the same branch give trees that are equal once the interpolated expressions are emptied:
  tags, class names, literal text and the places of the expressions do not depend on the
  error value; only the values of the expressions do.
\<close>

theorem template_markup_fixed:
  assumes "AppErrorBoundary e = Inr t" and "AppErrorBoundary e' = Inr t'"
    and "isRouteErrorResponse e = isRouteErrorResponse e'"
  shows "skeleton t = skeleton t'"
  using assms
  by (auto simp: AppErrorBoundary_def RouteErrorResponse_def split: if_splits sum.splits)

theorem template_markup_fixed_witness:
  "AppErrorBoundary not_found_error = Inr (RouteErrorResponse (narrow not_found_error))
   \<and> AppErrorBoundary server_error = Inr (RouteErrorResponse (narrow server_error))
   \<and> isRouteErrorResponse not_found_error = isRouteErrorResponse server_error
   \<and> skeleton (RouteErrorResponse (narrow not_found_error))
       = skeleton (RouteErrorResponse (narrow server_error))"
proof -
  have g: "isRouteErrorResponse not_found_error" "isRouteErrorResponse server_error"
    by (simp_all add: isRouteErrorResponse_def not_found_error_def server_error_def)
  have a: "AppErrorBoundary not_found_error = Inr (RouteErrorResponse (narrow not_found_error))"
    using g(1) by (simp add: AppErrorBoundary_def)
  have b: "AppErrorBoundary server_error = Inr (RouteErrorResponse (narrow server_error))"
    using g(2) by (simp add: AppErrorBoundary_def)
  have c: "isRouteErrorResponse not_found_error = isRouteErrorResponse server_error"
    using g by simp
  show ?thesis using a b c template_markup_fixed [OF a b c] by simp
qed

text \<open>
  C9, as stated: the generic template shows \<open>message\<close> when it is a non-empty string and
  \<open>String(error)\<close> otherwise, and two inputs with the same \<open>message\<close> and \<open>stack\<close>
  render the same. A thrown object whose \<open>message\<close> is the number 42 is shown as 42, not
  as \<open>String(error)\<close>; the thrown strings \<open>"a"\<close> and \<open>"b"\<close> have the same \<open>message\<close>
  and \<open>stack\<close> (both \<open>undefined\<close>) and render differently.
\<close>

theorem generic_template_counterexample:
  "\<not> isRouteErrorResponse odd_error
   \<and> lookup odd_error ''message'' = JNumber (Num 42)
   \<and> String_js odd_error = Inr ''[object Object]''
   \<and> map_sum id holes (AppErrorBoundary odd_error) = Inr [JNumber (Num 42), JUndefined]
   \<and> \<not> isRouteErrorResponse (JString ''a'') \<and> \<not> isRouteErrorResponse (JString ''b'')
   \<and> get_prop (JString ''a'') ''message'' = get_prop (JString ''b'') ''message''
   \<and> get_prop (JString ''a'') ''stack'' = get_prop (JString ''b'') ''stack''
   \<and> AppErrorBoundary (JString ''a'') \<noteq> AppErrorBoundary (JString ''b'')"
  by (simp add: isRouteErrorResponse_def AppErrorBoundary_def odd_error_def)

text \<open>
  C9, amended: for every error value that is not a route error response and whose reads of
  \<open>message\<close> and \<open>stack\<close> return (which leaves out \<open>null\<close> and \<open>undefined\<close>), the
  generic template shows \<open>message\<close> when it is truthy (a non-empty string in particular)
  and otherwise \<open>String(error)\<close>, when that conversion returns; whenever the template is
  rendered it also shows \<open>stack\<close>; and of two such inputs with the same \<open>message\<close>, the
  same \<open>stack\<close> and the same \<open>String(error)\<close>, when one is rendered the other is
  rendered the same.
\<close>

theorem generic_template_shows:
  assumes "\<not> isRouteErrorResponse e"
    and "get_prop e ''message'' = Inr m" and "get_prop e ''stack'' = Inr st"
  shows "(ToBoolean m \<longrightarrow> map_sum id holes (AppErrorBoundary e) = Inr [m, st])
       \<and> (\<forall>s. \<not> ToBoolean m \<and> String_js e = Inr s \<longrightarrow>
            map_sum id holes (AppErrorBoundary e) = Inr [JString s, st])
       \<and> (\<forall>t. AppErrorBoundary e = Inr t \<longrightarrow> (\<exists>shown. holes t = [shown, st]))
       \<and> (\<forall>e' t. \<not> isRouteErrorResponse e'
              \<and> get_prop e' ''message'' = Inr m \<and> get_prop e' ''stack'' = Inr st
              \<and> String_js e' = String_js e \<and> AppErrorBoundary e = Inr t
            \<longrightarrow> AppErrorBoundary e' = Inr t)"
proof (intro conjI allI impI)
  assume "ToBoolean m"
  then show "map_sum id holes (AppErrorBoundary e) = Inr [m, st]"
    by (simp add: AppErrorBoundary_reads [OF assms])
next
  fix s
  assume "\<not> ToBoolean m \<and> String_js e = Inr s"
  then show "map_sum id holes (AppErrorBoundary e) = Inr [JString s, st]"
    by (simp add: AppErrorBoundary_reads [OF assms])
next
  fix t
  assume "AppErrorBoundary e = Inr t"
  then show "\<exists>shown. holes t = [shown, st]"
    unfolding AppErrorBoundary_reads [OF assms]
    by (cases "if ToBoolean m then Inr m else map_sum id JString (String_js e)") auto
next
  fix e' t
  assume h: "\<not> isRouteErrorResponse e'
              \<and> get_prop e' ''message'' = Inr m \<and> get_prop e' ''stack'' = Inr st
              \<and> String_js e' = String_js e \<and> AppErrorBoundary e = Inr t"
  then have g: "\<not> isRouteErrorResponse e'"
    and m': "get_prop e' ''message'' = Inr m" and k': "get_prop e' ''stack'' = Inr st"
    and c: "String_js e' = String_js e" and r: "AppErrorBoundary e = Inr t"
    by simp_all
  have "AppErrorBoundary e' = AppErrorBoundary e"
    unfolding AppErrorBoundary_reads [OF g m' k'] AppErrorBoundary_reads [OF assms] c
    by (rule refl)
  then show "AppErrorBoundary e' = Inr t"
    using r by simp
qed

theorem generic_template_shows_witness:
  "\<not> isRouteErrorResponse boom_error
   \<and> get_prop boom_error ''message'' = Inr (JString ''boom'')
   \<and> get_prop boom_error ''stack'' = Inr (JString ''Error: boom at loader'')
   \<and> ToBoolean (JString ''boom'')
   \<and> map_sum id holes (AppErrorBoundary boom_error)
       = Inr [JString ''boom'', JString ''Error: boom at loader'']
   \<and> \<not> isRouteErrorResponse (JString ''oops'')
   \<and> get_prop (JString ''oops'') ''message'' = Inr JUndefined
   \<and> get_prop (JString ''oops'') ''stack'' = Inr JUndefined
   \<and> \<not> ToBoolean JUndefined
   \<and> String_js (JString ''oops'') = Inr ''oops''
   \<and> map_sum id holes (AppErrorBoundary (JString ''oops'')) = Inr [JString ''oops'', JUndefined]"
proof -
  have b1: "\<not> isRouteErrorResponse boom_error"
    by (simp add: isRouteErrorResponse_def boom_error_def)
  have b2: "get_prop boom_error ''message'' = Inr (JString ''boom'')"
    by (simp add: boom_error_def)
  have b3: "get_prop boom_error ''stack'' = Inr (JString ''Error: boom at loader'')"
    by (simp add: boom_error_def)
  have s1: "\<not> isRouteErrorResponse (JString ''oops'')"
    by (simp add: isRouteErrorResponse_def)
  have s2: "get_prop (JString ''oops'') ''message'' = Inr JUndefined"
    by simp
  have s3: "get_prop (JString ''oops'') ''stack'' = Inr JUndefined"
    by simp
  have r1: "map_sum id holes (AppErrorBoundary boom_error)
          = Inr [JString ''boom'', JString ''Error: boom at loader'']"
    using generic_template_shows [OF b1 b2 b3, THEN conjunct1] by simp
  have r2: "map_sum id holes (AppErrorBoundary (JString ''oops''))
                   = Inr [JString ''oops'', JUndefined]"
    using generic_template_shows [OF s1 s2 s3, THEN conjunct2, THEN conjunct1, rule_format, of "''oops''"]
    by simp
  show ?thesis
    by (intro conjI b1 b2 b3 s1 s2 s3 r1 r2) simp_all
qed

section \<open>The counter and its pages\<close>

lemma perform_nonneg: "0 \<le> count s \<Longrightarrow> 0 \<le> count (perform a s)"
  by (cases a) (simp_all add: increment_def reset_def)

lemma run_nonneg: "0 \<le> count s \<Longrightarrow> 0 \<le> count (run as s)"
proof (induction as arbitrary: s)
  case Nil
  then show ?case by simp
next
  case (Cons a as)
  from Cons.prems have "0 \<le> count (perform a s)" by (rule perform_nonneg)
  then show ?case using Cons.IH by simp
qed

text \<open>
  C2: on both pages the first element with a click handler is the increment button; its
  handler calls \<open>increment\<close> exactly once; a click takes the counter from \<open>n\<close> to
  \<open>n + 1\<close>; and the button shows the count of the state it is rendered from, before the
  click and, rendered again, after it.
\<close>

theorem click_increment_button:
  "onClick (buttons (Home s) ! 0) = [Increment]
   \<and> count (click (buttons (Home s) ! 0) s) = count s + 1
   \<and> holes (buttons (Home s) ! 0) = [JNumber (Num (count s))]
   \<and> holes (buttons (Home (click (buttons (Home s) ! 0) s)) ! 0)
       = [JNumber (Num (count s + 1))]
   \<and> onClick (buttons (App s) ! 0) = [Increment]
   \<and> count (click (buttons (App s) ! 0) s) = count s + 1
   \<and> holes (buttons (App s) ! 0) = [JNumber (Num (count s))]
   \<and> holes (buttons (App (click (buttons (App s) ! 0) s)) ! 0)
       = [JNumber (Num (count s + 1))]"
  by (simp add: Home_def App_def handleClick_def click_def increment_def)

text \<open>
  C3: the counter starts at 0, and after every sequence of operations from the initial
  state its value is non-negative.
\<close>

theorem counter_never_negative:
  "count initial_counter = 0 \<and> 0 \<le> count (run as initial_counter)"
  using run_nonneg [of initial_counter as] by (simp add: initial_counter_def)

section \<open>The route table\<close>

text \<open>
  C5: the table is one root route with path \<open>/\<close> and the error boundary
  \<open>AppErrorBoundary\<close>; its only child is an index route whose component is the lazily
  loaded page \<open>@/pages/index.tsx\<close>.
\<close>

theorem rootRoutes_shape:
  "path rootRoutes = Some ''/''
   \<and> ErrorBoundary rootRoutes = Some AppErrorBoundary_ref
   \<and> index rootRoutes = None \<and> Component rootRoutes = None
   \<and> (\<exists>c. children rootRoutes = Some [c]
          \<and> index c = Some True \<and> Component c = Some Home_lazy
          \<and> path c = None \<and> ErrorBoundary c = None \<and> children c = None)
   \<and> Home_lazy = lazy ''@/pages/index.tsx''"
  by (simp add: rootRoutes_def Home_lazy_def)

end
